theory Spec2Isabelle
  imports Main
begin

section \<open>The document-detection front end (app/app.js)\<close>

text \<open>
  The program is one browser script: a WebSocket \<open>onmessage\<close> handler that classifies
  each inbound text line and renders some of them into the \<open>resultsList\<close> element,
  and an asynchronous \<open>onclick\<close> handler of the upload button.

  JavaScript strings are sequences of code units; every string operation the script uses
  (\<open>startsWith\<close>, \<open>split\<close>, \<open>join\<close>, \<open>slice\<close>, \<open>substr\<close>, \<open>+\<close>) only compares and
  copies code units, so a string is modelled as a list of characters (\<open>string\<close>).
\<close>

subsection \<open>String and array operations of the runtime\<close>

text \<open>\<open>s.startsWith(p)\<close>.\<close>

definition startsWith :: "'a list \<Rightarrow> 'a list \<Rightarrow> bool" where
  "startsWith s p = (take (length p) s = p)"

text \<open>
  \<open>s.split(sep)\<close> for a string separator. The scan goes from left to right; where the
  rest of the string begins with the separator the current piece is closed and the scan
  continues behind the separator, so occurrences never overlap. The empty string splits
  into one empty piece. With the empty separator the result is the list of the single
  code units. (\<open>split_at\<close> never returns the empty list, lemma \<open>split_at_ne\<close>; the first
  branch of its inner case distinction only makes the definition total.)
\<close>

fun split_at :: "'a list \<Rightarrow> 'a list \<Rightarrow> 'a list list" where
  "split_at sep [] = [[]]"
| "split_at sep (c # cs) =
     (if sep \<noteq> [] \<and> startsWith (c # cs) sep
      then [] # split_at sep (drop (length sep - 1) cs)
      else (case split_at sep cs of
              [] \<Rightarrow> [[c]]
            | p # ps \<Rightarrow> (c # p) # ps))"

definition split :: "'a list \<Rightarrow> 'a list \<Rightarrow> 'a list list" where
  "split s sep = (if sep = [] then map (\<lambda>c. [c]) s else split_at sep s)"

text \<open>\<open>parts.join(sep)\<close>.\<close>

fun join :: "'a list list \<Rightarrow> 'a list \<Rightarrow> 'a list" where
  "join [] sep = []"
| "join [p] sep = p"
| "join (p # q # ps) sep = p @ sep @ join (q # ps) sep"

text \<open>\<open>parts.slice(n)\<close> for a non-negative \<open>n\<close>.\<close>

definition slice :: "'a list \<Rightarrow> nat \<Rightarrow> 'a list" where
  "slice xs n = drop n xs"

text \<open>\<open>xs[i]\<close>: an index out of range reads \<open>undefined\<close>, here \<open>None\<close>.\<close>

definition index :: "'a list \<Rightarrow> nat \<Rightarrow> 'a option" where
  "index xs i = (if i < length xs then Some (xs ! i) else None)"

text \<open>\<open>s.substr(start, len)\<close> for non-negative arguments.\<close>

definition substr :: "'a list \<Rightarrow> nat \<Rightarrow> nat \<Rightarrow> 'a list" where
  "substr s start len = take len (drop start s)"

text \<open>
  The text of \<open>s\<close> behind the \<open>n\<close>-th occurrence of the character \<open>c\<close>, as the
  specification words the message field of a DETECTION line ("the original line's content
  after the 4th colon"). This definition follows the specification, not the script.
\<close>

fun substring_after_nth :: "'a \<Rightarrow> nat \<Rightarrow> 'a list \<Rightarrow> 'a list" where
  "substring_after_nth c 0 s = s"
| "substring_after_nth c (Suc n) [] = []"
| "substring_after_nth c (Suc n) (x # xs) =
     (if x = c then substring_after_nth c n xs else substring_after_nth c (Suc n) xs)"

text \<open>
  The text of \<open>s\<close> behind its first occurrence of \<open>sep\<close> (nothing when \<open>sep\<close> does not
  occur), as the specification words the Session Identity ("the exact substring following
  the first occurrence of \<open>: \<close>"). This definition, too, follows the specification.
\<close>

fun text_after :: "'a list \<Rightarrow> 'a list \<Rightarrow> 'a list" where
  "text_after sep [] = []"
| "text_after sep (c # cs) =
     (if startsWith (c # cs) sep then drop (length sep) (c # cs) else text_after sep cs)"

text \<open>
  The text of \<open>s\<close> up to its first occurrence of \<open>sep\<close>, all of \<open>s\<close> when \<open>sep\<close> does
  not occur. Used to word what the identity announcement stores.
\<close>

fun text_before :: "'a list \<Rightarrow> 'a list \<Rightarrow> 'a list" where
  "text_before sep [] = []"
| "text_before sep (c # cs) =
     (if startsWith (c # cs) sep then [] else c # text_before sep cs)"

subsection \<open>Numbers and the engine\<close>

text \<open>
  A JavaScript number is a double. The script never computes with numbers: it parses
  them from text, passes them on and prints them. The model keeps the one value the
  specification names, \<open>NaN\<close>, and leaves the other doubles abstract (\<open>'d\<close>). The
  built-in functions of the engine that produce or print a number are parameters of the
  model, collected in a record; so is the text of the errors the engine itself throws.
\<close>

datatype 'd number = NaN | Num 'd

text \<open>
  The parsed body of the upload response, as far as the script reads it: \<open>null\<close>, or a
  value with an optional \<open>error\<close> string and an optional \<open>supported_types\<close> array of
  strings (a JSON value that is not an object has neither).
\<close>

datatype json = JNull | JObject "string option" "string list option"

record 'd runtime =
  parseFloat :: "string \<Rightarrow> 'd number"
  parseInt :: "string \<Rightarrow> 'd number"
  numberToString :: "'d number \<Rightarrow> string"
  JSON_stringify :: "json \<Rightarrow> string"
  typeErrorMessage :: "string \<Rightarrow> string"

text \<open>
  \<open>typeErrorMessage rt p\<close> is the message of the TypeError thrown when property \<open>p\<close> is
  read from \<open>null\<close> or \<open>undefined\<close>.
\<close>

subsection \<open>The state of the page\<close>

text \<open>
  The content of an element is its list of child nodes: text nodes and elements (tag
  name, attributes, children). Assigning a string to \<open>innerHTML\<close> does not store the
  string: the browser runs its HTML fragment parser on it and replaces the children of
  the element by the nodes the parser returns. The parser is a parameter of the model
  (\<open>html\<close> below), like the built-in functions of the engine. The content of an element
  is the assigned text itself, \<open>[Text s]\<close>, only where the parser reads \<open>s\<close> as one text
  node; text with a \<open><\<close> or a \<open>&\<close> in it is in general read as something else.
\<close>

datatype node = Text string | Element string "(string \<times> string) list" "node list"

type_synonym html_parser = "string \<Rightarrow> node list"

text \<open>
  An \<open><li>\<close> element is modelled by its class name and its child nodes; the rendered
  result list is the list of the children of \<open>resultsList\<close>, in document order. The parser
  returns no node for the empty string, so \<open>resultsList.innerHTML = ''\<close> is modelled as
  removing all children. The console records the calls of \<open>addLog\<close> (type and message,
  without the time stamp); the direct \<open>console.log\<close> calls of the handlers are diagnostic
  copies and are left out, and so is \<open>scrollIntoView\<close>. \<open>None\<close> in \<open>myId\<close> and
  \<open>currentClientId\<close> is \<open>null\<close> (or \<open>undefined\<close>).

  The \<open>onclick\<close> handler is asynchronous: it runs up to \<open>await fetch(...)\<close>, is suspended,
  resumes when the request settles, is suspended again at \<open>await response.json()\<close> and
  resumes when the body is parsed. While it is suspended the event loop runs other
  handlers. \<open>suspended\<close> holds the suspended handler, with its local \<open>clientId\<close>.
\<close>

record li =
  className :: string
  childNodes :: "node list"

record button =
  disabled :: bool
  textContent :: string

datatype continuation = AwaitFetch string | AwaitJson string

record state =
  myId :: "string option"
  currentClientId :: "string option"
  resultsList :: "li list"
  uploadBtn :: button
  console :: "(string \<times> string) list"
  alerts :: "string list"
  suspended :: "continuation option"

definition addLog :: "string \<Rightarrow> string \<Rightarrow> state \<Rightarrow> state" where
  "addLog type message st = st\<lparr>console := console st @ [(type, message)]\<rparr>"

definition alert :: "string \<Rightarrow> state \<Rightarrow> state" where
  "alert message st = st\<lparr>alerts := alerts st @ [message]\<rparr>"

subsection \<open>The message handler\<close>

definition updateDetectionUI ::
  "string \<Rightarrow> string \<Rightarrow> 'd number \<Rightarrow> string \<Rightarrow> state \<Rightarrow> state" where
  "updateDetectionUI clientId status confidence message st =
     (let st1 = addLog ''UI_FUNCTION''
                  (''updateDetectionUI: '' @ clientId @ '' vs '' @
                   (case currentClientId st of None \<Rightarrow> ''null'' | Some c \<Rightarrow> c)) st
      in if Some clientId \<noteq> currentClientId st1
         then addLog ''UI_FUNCTION'' ''Client ID mismatch - skipping updateDetectionUI'' st1
         else addLog ''UI_FUNCTION'' ''Client ID matches - processing updateDetectionUI'' st1)"

text \<open>
  \<open>li.innerHTML = message\<close> (line 210) hands \<open>message\<close> to the HTML parser; the new
  entry's children are what the parser returns.
\<close>

definition addDetectionResult ::
  "html_parser \<Rightarrow> string \<Rightarrow> string \<Rightarrow> 'd number \<Rightarrow> string \<Rightarrow> state \<Rightarrow> state" where
  "addDetectionResult html clientId status confidence message st =
     (let st1 = addLog ''UI_FUNCTION'' (''addDetectionResult: '' @ message) st;
          li = \<lparr>className = ''result-item'', childNodes = html message\<rparr>;
          st2 = st1\<lparr>resultsList := resultsList st1 @ [li]\<rparr>
      in addLog ''UI_UPDATE'' (''Detection result displayed: '' @ message) st2)"

definition onmessage :: "html_parser \<Rightarrow> 'd runtime \<Rightarrow> string \<Rightarrow> state \<Rightarrow> state" where
  "onmessage html rt data st0 =
     (let st = addLog ''WEBSOCKET'' (''Received: '' @ data) st0 in
      if startsWith data ''Your ID: '' then
        (let ident = index (split data '': '') 1;
             st1 = st\<lparr>myId := ident\<rparr>
         in addLog ''CONNECTION''
              (''WebSocket connected with ID: '' @
               (case ident of None \<Rightarrow> ''undefined'' | Some i \<Rightarrow> i)) st1)
      else if startsWith data ''DETECTION:'' then
        (let st1 = addLog ''DETECTION'' ''Processing detection message'' st;
             parts = split data '':''
         in if length parts \<ge> 5 then
              (let clientId = parts ! 1;
                   status = parts ! 2;
                   confidence = parseFloat rt (parts ! 3);
                   message = join (slice parts 4) '':'';
                   st2 = addLog ''DETECTION''
                           (''Client: '' @ clientId @ '', Status: '' @ status @
                            '', Message: '' @ message) st1;
                   st3 = updateDetectionUI clientId status confidence message st2
               in addDetectionResult html clientId status confidence message st3)
            else st1)
      else if startsWith data ''PAGE_COUNT:'' then
        (let st1 = addLog ''PAGE_COUNT'' ''Processing page count message'' st;
             parts = split data '':''
         in if length parts \<ge> 3 then
              (let clientId = parts ! 1;
                   pages = parseInt rt (parts ! 2)
               in addLog ''PAGE_COUNT''
                    (''Client: '' @ clientId @ '', Pages: '' @ numberToString rt pages) st1)
            else st1)
      else if startsWith data ''PAGE_RESULT:'' then
        (let st1 = addLog ''PAGE_RESULT'' ''Processing page result message'' st;
             parts = split data '':''
         in if length parts \<ge> 7 then
              (let clientId = parts ! 1;
                   pageNum = parseInt rt (parts ! 2);
                   orientation = parts ! 3;
                   aspectRatio = parseFloat rt (parts ! 4);
                   width = parseInt rt (parts ! 5);
                   height = parseInt rt (parts ! 6)
               in addLog ''PAGE_RESULT''
                    (''Page '' @ numberToString rt pageNum @ '': '' @ orientation @
                     '' ('' @ numberToString rt width @ ''x'' @ numberToString rt height @
                     '')'') st1)
            else st1)
      else
        (let st1 = addLog ''UNKNOWN'' (''Unknown message: '' @ data) st;
             el = \<lparr>className = [], childNodes = html data\<rparr>
         in st1\<lparr>resultsList := resultsList st1 @ [el]\<rparr>))"


subsection \<open>The upload handler\<close>

text \<open>
  \<open>generateClientId\<close> takes the text \<open>Math.random().toString(36)\<close> as its argument: the
  base-36 rendering of a double in the interval from 0 (included) to 1 (excluded), that
  is \<open>0\<close>, or \<open>0.\<close> followed by the base-36 digits of the fraction (\<open>0.i\<close> for one half).
\<close>

definition generateClientId :: "string \<Rightarrow> string" where
  "generateClientId r = ''client_'' @ substr r 2 8"

definition is_base36 :: "char \<Rightarrow> bool" where
  "is_base36 c = (c \<in> set ''0123456789abcdefghijklmnopqrstuvwxyz'')"

text \<open>
  The selected file, and the response of \<open>fetch\<close>, as far as the script reads them. An
  error is modelled by its message.
\<close>

record 'd js_file =
  file_name :: string
  file_size :: "'d number"

record 'd response =
  ok :: bool
  status :: "'d number"

type_synonym js_error = string

text \<open>The \<open>catch\<close> block (lines 180 to 186); the handler ends there.\<close>

definition onclick_catch :: "js_error \<Rightarrow> state \<Rightarrow> state" where
  "onclick_catch error st =
     (let st1 = addLog ''ERROR'' (''Upload failed: '' @ error) st;
          st2 = alert (''Error uploading file: '' @ error) st1;
          st3 = st2\<lparr>uploadBtn := (uploadBtn st2)\<lparr>textContent := ''Upload & Analyze''\<rparr>\<rparr>;
          st4 = st3\<lparr>uploadBtn := (uploadBtn st3)\<lparr>disabled := False\<rparr>\<rparr>
      in st4\<lparr>suspended := None\<rparr>)"

text \<open>
  From the click to \<open>await fetch(...)\<close> (lines 114 to 141). \<open>files0\<close> is
  \<open>fileInput.files[0]\<close> and \<open>r\<close> the text of the random number. The request carries the
  file and the generated \<open>clientId\<close>; the handler keeps \<open>clientId\<close> as a local.
\<close>

definition onclick :: "'d runtime \<Rightarrow> 'd js_file option \<Rightarrow> string \<Rightarrow> state \<Rightarrow> state" where
  "onclick rt files0 r st0 =
     (let st = addLog ''UI'' ''Upload button clicked'' st0 in
      case files0 of
        None \<Rightarrow>
          alert ''Please select a file first''
            (addLog ''UI'' ''No file selected - showing alert'' st)
      | Some file \<Rightarrow>
          (let clientId = generateClientId r;
               st1 = addLog ''CLIENT'' (''Generated client ID: '' @ clientId) st;
               st2 = addLog ''UPLOAD''
                       (''Starting upload: '' @ file_name file @ '' ('' @
                        numberToString rt (file_size file) @ '' bytes)'') st1;
               st3 = st2\<lparr>uploadBtn := (uploadBtn st2)\<lparr>disabled := True\<rparr>\<rparr>;
               st4 = st3\<lparr>uploadBtn := (uploadBtn st3)\<lparr>textContent := ''Uploading...''\<rparr>\<rparr>;
               st5 = addLog ''UI''
                       (''Upload button disabled, text changed to '' @ [CHR 0x22] @
                        ''Uploading...'' @ [CHR 0x22]) st4
           in st5\<lparr>suspended := Some (AwaitFetch clientId)\<rparr>))"

text \<open>
  From the settled request to \<open>await response.json()\<close> (lines 141 to 153). A rejected
  \<open>fetch\<close> (\<open>Inl\<close>) and a response that is not \<open>ok\<close> both go to the \<open>catch\<close> block.
\<close>

definition onclick_fetched ::
  "'d runtime \<Rightarrow> string \<Rightarrow> js_error + 'd response \<Rightarrow> state \<Rightarrow> state" where
  "onclick_fetched rt clientId outcome st =
     (case outcome of
        Inl error \<Rightarrow> onclick_catch error st
      | Inr response \<Rightarrow>
          (let st1 = addLog ''UPLOAD''
                       (''Upload response status: '' @ numberToString rt (status response)) st
           in if \<not> ok response then onclick_catch ''Upload failed'' st1
              else st1\<lparr>suspended := Some (AwaitJson clientId)\<rparr>))"

text \<open>
  \<open>if (result.error)\<close> tests truthiness: an absent \<open>error\<close> and the empty string are both
  falsy.
\<close>

definition truthy :: "string option \<Rightarrow> bool" where
  "truthy v = (case v of None \<Rightarrow> False | Some s \<Rightarrow> s \<noteq> [])"

text \<open>
  From the parsed body to the end of the handler (lines 153 to 178). Reading \<open>error\<close> from
  \<open>null\<close>, and \<open>join\<close> from an absent \<open>supported_types\<close>, throws a TypeError, which the
  \<open>catch\<close> block handles.
\<close>

definition onclick_parsed ::
  "'d runtime \<Rightarrow> string \<Rightarrow> js_error + json \<Rightarrow> state \<Rightarrow> state" where
  "onclick_parsed rt clientId outcome st =
     (case outcome of
        Inl error \<Rightarrow> onclick_catch error st
      | Inr result \<Rightarrow>
          (let st1 = addLog ''UPLOAD'' (''Upload result: '' @ JSON_stringify rt result) st in
           case result of
             JNull \<Rightarrow> onclick_catch (typeErrorMessage rt ''error'') st1
           | JObject error supported_types \<Rightarrow>
               if truthy error then
                 (let st2 = addLog ''ERROR'' (''Upload error: '' @ the error) st1 in
                  case supported_types of
                    None \<Rightarrow> onclick_catch (typeErrorMessage rt ''join'') st2
                  | Some types \<Rightarrow>
                      (let st3 = alert (''Error: '' @ the error @ [CHR 0x0A] @
                                        ''Supported types: '' @ join types '', '') st2;
                           st4 = st3\<lparr>uploadBtn :=
                                   (uploadBtn st3)\<lparr>textContent := ''Upload & Analyze''\<rparr>\<rparr>;
                           st5 = st4\<lparr>uploadBtn := (uploadBtn st4)\<lparr>disabled := False\<rparr>\<rparr>
                       in st5\<lparr>suspended := None\<rparr>))
               else
                 (let st2 = st1\<lparr>currentClientId := Some clientId\<rparr>;
                      st3 = addLog ''CLIENT'' (''Set current client ID: '' @ clientId) st2;
                      st4 = st3\<lparr>resultsList := []\<rparr>;
                      st5 = addLog ''UI'' ''Cleared results list'' st4;
                      st6 = st5\<lparr>uploadBtn :=
                              (uploadBtn st5)\<lparr>textContent := ''Upload & Analyze''\<rparr>\<rparr>;
                      st7 = st6\<lparr>uploadBtn := (uploadBtn st6)\<lparr>disabled := False\<rparr>\<rparr>;
                      st8 = addLog ''UI'' ''Upload button re-enabled'' st7;
                      st9 = addLog ''UPLOAD''
                              ''Upload completed successfully, awaiting processing messages'' st8
                  in st9\<lparr>suspended := None\<rparr>)))"

subsection \<open>The event loop\<close>

text \<open>
  The handlers run one at a time, each to completion or to its next \<open>await\<close>. An event is
  an inbound WebSocket message, a click on the upload button (with the selected file and
  the text of the random number the handler will draw), the settling of the pending
  request, or the settling of the pending body. A disabled button receives no click; a
  settling event with no handler waiting for it does nothing.
\<close>

datatype 'd event =
    Message string
  | Click "'d js_file option" string
  | FetchSettled "js_error + 'd response"
  | JsonSettled "js_error + json"

fun step :: "html_parser \<Rightarrow> 'd runtime \<Rightarrow> state \<Rightarrow> 'd event \<Rightarrow> state" where
  "step html rt st (Message data) = onmessage html rt data st"
| "step html rt st (Click files0 r) =
     (if disabled (uploadBtn st) then st else onclick rt files0 r st)"
| "step html rt st (FetchSettled outcome) =
     (case suspended st of
        Some (AwaitFetch clientId) \<Rightarrow> onclick_fetched rt clientId outcome st
      | _ \<Rightarrow> st)"
| "step html rt st (JsonSettled outcome) =
     (case suspended st of
        Some (AwaitJson clientId) \<Rightarrow> onclick_parsed rt clientId outcome st
      | _ \<Rightarrow> st)"

definition run ::
  "html_parser \<Rightarrow> 'd runtime \<Rightarrow> state \<Rightarrow> 'd event list \<Rightarrow> state" where
  "run html rt st events = foldl (step html rt) st events"

text \<open>
  An upload succeeds when the request settles with a response that is \<open>ok\<close> and the body
  parses to a value other than \<open>null\<close> that has no truthy \<open>error\<close>. A rejected request or
  body does not count, and neither does the body \<open>null\<close>: reading \<open>error\<close> from it throws,
  and the \<open>catch\<close> block runs.
\<close>

definition body_accepted :: "js_error + json \<Rightarrow> bool" where
  "body_accepted outcome =
     (case outcome of
        Inr (JObject error supported_types) \<Rightarrow> \<not> truthy error
      | _ \<Rightarrow> False)"

definition response_ok :: "js_error + 'd response \<Rightarrow> bool" where
  "response_ok outcome = (case outcome of Inr response \<Rightarrow> ok response | Inl error \<Rightarrow> False)"

text \<open>
  At most one handler is suspended at a time as long as a suspended handler implies a
  disabled button; the event loop keeps this (lemma \<open>step_single_handler\<close>).
\<close>

definition single_handler :: "state \<Rightarrow> bool" where
  "single_handler st = (suspended st = None \<or> disabled (uploadBtn st))"

subsection \<open>Sample values\<close>

text \<open>
  The state of a freshly loaded page: both identifiers \<open>null\<close>, an empty list, the button
  enabled.
\<close>

definition fresh_page :: state where
  "fresh_page =
     \<lparr>myId = None, currentClientId = None, resultsList = [],
      uploadBtn = \<lparr>disabled = False, textContent = ''Upload & Analyze''\<rparr>,
      console = [], alerts = [], suspended = None\<rparr>"

text \<open>
  The HTML parser on plain text: a non-empty text without \<open><\<close> and \<open>&\<close> is read as one
  text node, the empty text as no node. The examples apply \<open>text_only_html\<close> to such
  texts only. On the text \<open>low<high rejected\<close> a browser's parser returns the single text
  node \<open>low\<close>: \<open><high\<close> opens a start tag, the input ends inside it, and the unfinished
  tag is dropped; \<open>markup_example_html\<close> adds this one reading.
\<close>

definition text_only_html :: html_parser where
  "text_only_html s = (if s = [] then [] else [Text s])"

definition markup_example_html :: html_parser where
  "markup_example_html = text_only_html(''low<high rejected'' := [Text ''low''])"

text \<open>
  An engine for evaluating examples. It stands for a double by the unsigned decimal text
  that was read: \<open>parseFloat\<close> keeps the leading digits and dots of its argument,
  \<open>parseInt\<close> the leading digits, and both give \<open>NaN\<close> when no digit was read. Signs,
  exponents, leading white space and rounding are outside this sample; no theorem about
  all engines depends on it.
\<close>

definition is_digit :: "char \<Rightarrow> bool" where
  "is_digit c = (c \<in> set ''0123456789'')"

definition quoted :: "string \<Rightarrow> string" where
  "quoted s = [CHR 0x22] @ s @ [CHR 0x22]"

definition sample_engine :: "string runtime" where
  "sample_engine =
     \<lparr>parseFloat =
        (\<lambda>s. let p = takeWhile (\<lambda>c. is_digit c \<or> c = CHR ''.'') s
             in if list_ex is_digit p then Num p else NaN),
      parseInt =
        (\<lambda>s. let p = takeWhile is_digit s in if p = [] then NaN else Num p),
      numberToString = (\<lambda>n. case n of NaN \<Rightarrow> ''NaN'' | Num p \<Rightarrow> p),
      JSON_stringify =
        (\<lambda>j. case j of
               JNull \<Rightarrow> ''null''
             | JObject error supported_types \<Rightarrow>
                 ''{'' @
                 join ((case error of
                          None \<Rightarrow> []
                        | Some e \<Rightarrow> [quoted ''error'' @ '':'' @ quoted e]) @
                       (case supported_types of
                          None \<Rightarrow> []
                        | Some types \<Rightarrow>
                            [quoted ''supported_types'' @ '':['' @
                             join (map quoted types) '','' @ '']''])) '','' @
                 ''}''),
      typeErrorMessage = (\<lambda>p. ''Cannot read properties of undefined (reading '' @ p @ '')'')\<rparr>"

definition sample_file :: "string js_file" where
  "sample_file = \<lparr>file_name = ''scan.pdf'', file_size = Num ''48213''\<rparr>"

definition response_200 :: "js_error + string response" where
  "response_200 = Inr \<lparr>ok = True, status = Num ''200''\<rparr>"

definition response_500 :: "js_error + string response" where
  "response_500 = Inr \<lparr>ok = False, status = Num ''500''\<rparr>"

section \<open>Properties\<close>

subsection \<open>Splitting and joining\<close>

lemma startsWith_iff: "startsWith s p \<longleftrightarrow> (\<exists>t. s = p @ t)"
proof
  assume "startsWith s p"
  then have "s = p @ drop (length p) s"
    by (metis append_take_drop_id startsWith_def)
  then show "\<exists>t. s = p @ t" ..
next
  assume "\<exists>t. s = p @ t"
  then show "startsWith s p" by (auto simp: startsWith_def)
qed

lemma split_at_ne: "split_at sep s \<noteq> []"
  by (induction s rule: split_at.induct) (auto split: list.splits)

lemma split_ne: "split s [c] \<noteq> []"
  by (simp add: split_def split_at_ne)

lemma split_char_Cons:
  "split (x # xs) [c] =
     (if x = c then [] # split xs [c]
      else (x # hd (split xs [c])) # tl (split xs [c]))"
  using split_at_ne[of "[c]" xs]
  by (cases "split_at [c] xs") (auto simp: split_def startsWith_def)

lemma join_Cons: "ps \<noteq> [] \<Longrightarrow> join (p # ps) sep = p @ sep @ join ps sep"
  by (cases ps) auto

lemma join_Cons_Cons: "join ((x # p) # ps) sep = x # join (p # ps) sep"
  by (cases ps) auto

lemma join_Cons_hd: "ps \<noteq> [] \<Longrightarrow> join ((x # hd ps) # tl ps) sep = x # join ps sep"
  by (cases ps) (simp_all add: join_Cons_Cons)

text \<open>Joining what was split at a character gives the string back.\<close>

lemma join_split: "join (split s [c]) [c] = s"
proof (induction s)
  case Nil
  show ?case by (simp add: split_def)
next
  case (Cons x xs)
  then show ?case
    by (simp add: split_char_Cons split_ne join_Cons join_Cons_hd)
qed

text \<open>Dropping the first \<open>n\<close> pieces drops the text up to the \<open>n\<close>-th separator.\<close>

lemma join_slice_split:
  "n < length (split s [c]) \<Longrightarrow> join (slice (split s [c]) n) [c] = substring_after_nth c n s"
proof (induction c n s rule: substring_after_nth.induct)
  case (1 c s)
  then show ?case by (simp add: slice_def join_split)
next
  case (2 c n)
  then show ?case by (simp add: split_def slice_def)
next
  case (3 c n x xs)
  then show ?case
    using split_ne[of xs c]
    by (cases "split xs [c]") (auto simp: split_char_Cons slice_def)
qed

lemma hd_split_at: "sep \<noteq> [] \<Longrightarrow> hd (split_at sep s) = text_before sep s"
  using split_at_ne[of sep]
  by (induction s) (auto split: list.splits)

subsection \<open>The prefixes exclude each other\<close>

lemma not_your_id:
  "startsWith data ''DETECTION:'' \<or> startsWith data ''PAGE_COUNT:'' \<or>
   startsWith data ''PAGE_RESULT:'' \<Longrightarrow> \<not> startsWith data ''Your ID: ''"
  by (auto simp: startsWith_iff)

lemma page_not_detection:
  "startsWith data ''PAGE_COUNT:'' \<or> startsWith data ''PAGE_RESULT:''
   \<Longrightarrow> \<not> startsWith data ''DETECTION:''"
  by (auto simp: startsWith_iff)

subsection \<open>What each function leaves alone\<close>

lemma addLog_sel:
  "myId (addLog t m st) = myId st"
  "currentClientId (addLog t m st) = currentClientId st"
  "resultsList (addLog t m st) = resultsList st"
  "uploadBtn (addLog t m st) = uploadBtn st"
  "alerts (addLog t m st) = alerts st"
  "suspended (addLog t m st) = suspended st"
  by (simp_all add: addLog_def)

lemma alert_sel:
  "myId (alert m st) = myId st"
  "currentClientId (alert m st) = currentClientId st"
  "resultsList (alert m st) = resultsList st"
  "uploadBtn (alert m st) = uploadBtn st"
  "suspended (alert m st) = suspended st"
  by (simp_all add: alert_def)

lemma updateDetectionUI_sel:
  "myId (updateDetectionUI c s k m st) = myId st"
  "currentClientId (updateDetectionUI c s k m st) = currentClientId st"
  "resultsList (updateDetectionUI c s k m st) = resultsList st"
  "uploadBtn (updateDetectionUI c s k m st) = uploadBtn st"
  "alerts (updateDetectionUI c s k m st) = alerts st"
  "suspended (updateDetectionUI c s k m st) = suspended st"
  by (simp_all add: updateDetectionUI_def Let_def addLog_sel)

lemma addDetectionResult_sel:
  "myId (addDetectionResult html c s k m st) = myId st"
  "currentClientId (addDetectionResult html c s k m st) = currentClientId st"
  "resultsList (addDetectionResult html c s k m st) =
     resultsList st @ [\<lparr>className = ''result-item'', childNodes = html m\<rparr>]"
  "uploadBtn (addDetectionResult html c s k m st) = uploadBtn st"
  "alerts (addDetectionResult html c s k m st) = alerts st"
  "suspended (addDetectionResult html c s k m st) = suspended st"
  by (simp_all add: addDetectionResult_def Let_def addLog_sel)

lemmas onmessage_sel =
  onmessage_def Let_def addLog_sel updateDetectionUI_sel addDetectionResult_sel

lemmas handler_defs =
  onmessage_def updateDetectionUI_def addDetectionResult_def addLog_def alert_def Let_def

lemmas eval_defs =
  split_def startsWith_def slice_def index_def fresh_page_def sample_engine_def is_digit_def
  text_only_html_def

text \<open>
  The message handler never touches the active upload's identifier, the button or the
  suspended upload handler, and what it appends to the list does not depend on the rest
  of the state.
\<close>

lemma onmessage_frame:
  "currentClientId (onmessage html rt data st) = currentClientId st"
  "suspended (onmessage html rt data st) = suspended st"
  "uploadBtn (onmessage html rt data st) = uploadBtn st"
  by (simp_all add: onmessage_sel)

lemma onmessage_list_cong:
  "resultsList st = resultsList st' \<Longrightarrow>
   resultsList (onmessage html rt data st) = resultsList (onmessage html rt data st')"
  by (simp add: onmessage_sel)

subsection \<open>Runs of the event loop\<close>

lemma run_Nil: "run html rt st [] = st"
  by (simp add: run_def)

lemma run_Cons: "run html rt st (e # es) = run html rt (step html rt st e) es"
  by (simp add: run_def)

lemma run_append: "run html rt st (es @ fs) = run html rt (run html rt st es) fs"
  by (simp add: run_def)

lemma messages_frame:
  "currentClientId (run html rt st (map Message ms)) = currentClientId st \<and>
   suspended (run html rt st (map Message ms)) = suspended st \<and>
   uploadBtn (run html rt st (map Message ms)) = uploadBtn st"
  by (induction ms arbitrary: st) (simp_all add: run_Nil run_Cons onmessage_frame)

lemma messages_list_cong:
  "resultsList st = resultsList st' \<Longrightarrow>
   resultsList (run html rt st (map Message ms)) = resultsList (run html rt st' (map Message ms))"
proof (induction ms arbitrary: st st')
  case Nil
  then show ?case by (simp add: run_Nil)
next
  case (Cons m ms)
  have "resultsList (run html rt (onmessage html rt m st) (map Message ms)) =
        resultsList (run html rt (onmessage html rt m st') (map Message ms))"
    by (rule Cons.IH) (rule onmessage_list_cong[OF Cons.prems])
  then show ?case by (simp add: run_Cons)
qed

subsection \<open>The stages of the upload handler\<close>

lemmas upload_defs =
  onclick_def onclick_fetched_def onclick_parsed_def Let_def addLog_sel alert_sel

lemma onclick_frame:
  "currentClientId (onclick rt (Some f) r st) = currentClientId st"
  "resultsList (onclick rt (Some f) r st) = resultsList st"
  "suspended (onclick rt (Some f) r st) = Some (AwaitFetch (generateClientId r))"
  by (simp_all add: upload_defs)

lemma onclick_catch_frame:
  "currentClientId (onclick_catch e st) = currentClientId st"
  "resultsList (onclick_catch e st) = resultsList st"
  "suspended (onclick_catch e st) = None"
  by (simp_all add: onclick_catch_def Let_def addLog_sel alert_sel)

lemma onclick_fetched_frame:
  "currentClientId (onclick_fetched rt c x st) = currentClientId st"
  "resultsList (onclick_fetched rt c x st) = resultsList st"
  "suspended (onclick_fetched rt c x st) = (if response_ok x then Some (AwaitJson c) else None)"
  by (simp_all add: upload_defs onclick_catch_frame response_ok_def split: sum.splits)

lemma body_accepted_iff:
  "body_accepted y \<longleftrightarrow> (\<exists>e t. y = Inr (JObject e t) \<and> \<not> truthy e)"
  by (auto simp: body_accepted_def split: sum.splits json.splits)

lemma onclick_parsed_accepted:
  "body_accepted y \<Longrightarrow> currentClientId (onclick_parsed rt c y st) = Some c"
  "body_accepted y \<Longrightarrow> resultsList (onclick_parsed rt c y st) = []"
  by (auto simp: upload_defs onclick_catch_frame body_accepted_iff)

lemma onclick_parsed_rejected:
  "\<not> body_accepted y \<Longrightarrow> currentClientId (onclick_parsed rt c y st) = currentClientId st"
  "\<not> body_accepted y \<Longrightarrow> resultsList (onclick_parsed rt c y st) = resultsList st"
  by (auto simp: upload_defs onclick_catch_frame body_accepted_iff
           split: sum.splits json.splits option.splits)

text \<open>
  The body \<open>null\<close> is a failure: reading \<open>error\<close> from it throws, the \<open>catch\<close> block
  reports the error, and neither the identifier nor the list changes.
\<close>

lemma null_body_takes_catch_path:
  "body_accepted (Inr JNull) = False \<and>
   currentClientId (onclick_parsed rt c (Inr JNull) st) = currentClientId st \<and>
   resultsList (onclick_parsed rt c (Inr JNull) st) = resultsList st \<and>
   alerts (onclick_parsed rt c (Inr JNull) st) =
     alerts st @ [''Error uploading file: '' @ typeErrorMessage rt ''error'']"
  by (simp add: body_accepted_def onclick_parsed_def onclick_catch_def Let_def
        addLog_def alert_def)

text \<open>
  An upload attempt that begins in \<open>st\<close>: the click, the messages \<open>ms\<close> that arrive while
  the request is pending, the settled request \<open>x\<close>, the messages \<open>ms'\<close> that arrive while
  the body is pending, the settled body \<open>y\<close>.
\<close>

lemma attempt_unfold:
  assumes "\<not> disabled (uploadBtn st)"
  shows "run html rt st (Click (Some f) r # map Message ms @ FetchSettled x #
                    map Message ms' @ [JsonSettled y])
         = step html rt (run html rt (onclick_fetched rt (generateClientId r) x
                              (run html rt (onclick rt (Some f) r st) (map Message ms)))
                      (map Message ms')) (JsonSettled y)"
  using assms
  by (simp add: run_Cons run_append run_Nil messages_frame onclick_frame)

text \<open>A suspended handler keeps the button disabled, so no second one can start.\<close>

lemma step_single_handler:
  assumes "single_handler st"
  shows "single_handler (step html rt st e)"
proof (cases e)
  case (Message data)
  with assms show ?thesis by (simp add: single_handler_def onmessage_frame)
next
  case (Click files0 r)
  with assms show ?thesis
    by (auto simp: single_handler_def onclick_def Let_def addLog_sel alert_sel
             split: option.splits)
next
  case (FetchSettled x)
  with assms show ?thesis
    by (auto simp: single_handler_def onclick_fetched_def onclick_catch_frame Let_def addLog_sel
             split: option.splits continuation.splits sum.splits)
next
  case (JsonSettled y)
  with assms show ?thesis
    by (auto simp: single_handler_def onclick_parsed_def onclick_catch_frame Let_def
                   addLog_sel alert_sel
             split: option.splits continuation.splits sum.splits json.splits)
qed

section \<open>The claims\<close>

subsection \<open>C1: a DETECTION line for another upload\<close>

text \<open>
  Claim C1 says that a DETECTION line with at least 5 fields whose clientId differs from
  the Active Upload Client Id leaves the rendered result list as it was. The script
  compares the two identifiers in \<open>updateDetectionUI\<close> only, which writes to the console
  in both cases; \<open>addDetectionResult\<close> is called next without any comparison and appends
  the entry. Evaluated on the line \<open>DETECTION:xyz999:done:0.5:ignored\<close> with the active
  identifier \<open>abc123\<close> and an empty list: the list holds the entry \<open>ignored\<close> afterwards.
\<close>

theorem detection_mismatch_still_appends:
  "resultsList
     (onmessage text_only_html sample_engine ''DETECTION:xyz999:done:0.5:ignored''
        (fresh_page\<lparr>currentClientId := Some ''abc123''\<rparr>))
   = [\<lparr>className = ''result-item'', childNodes = [Text ''ignored'']\<rparr>]"
  by (simp add: onmessage_sel eval_defs)

subsection \<open>C2: a DETECTION line for the active upload\<close>

text \<open>
  What the script does for every DETECTION line with at least 5 fields: it appends exactly
  one entry, whose children are what the HTML parser makes of the message field (fields
  4 to the end joined with \<open>:\<close>).
\<close>

lemma detection_appends_parsed:
  assumes "startsWith data ''DETECTION:''"
    and "length (split data '':'') \<ge> 5"
  shows "resultsList (onmessage html rt data st) =
           resultsList st @
           [\<lparr>className = ''result-item'',
             childNodes = html (join (slice (split data '':'') 4) '':'')\<rparr>]"
  using assms not_your_id[of data] by (simp add: onmessage_sel)

text \<open>
  Claim C2 says that for a DETECTION line with at least 5 fields that carries the Active
  Upload Client Id, the handler appends exactly one entry whose content equals the
  message field. The script means to show the message as it is (its comments at lines
  207 and 210: "Show clean detection messages", "Just show the message without extra
  formatting"), but it assigns the message to \<open>innerHTML\<close>, so the entry holds what the
  HTML parser reads from it. Evaluated on the line
  \<open>DETECTION:abc123:done:0.9:low<high rejected\<close> with the active identifier \<open>abc123\<close>:
  one entry is appended, the message field is \<open>low<high rejected\<close>, and the entry's
  content is the text \<open>low\<close>.
\<close>

theorem detection_markup_not_shown_as_text:
  "resultsList
     (onmessage markup_example_html sample_engine
        ''DETECTION:abc123:done:0.9:low<high rejected''
        (fresh_page\<lparr>currentClientId := Some ''abc123''\<rparr>))
   = [\<lparr>className = ''result-item'', childNodes = [Text ''low'']\<rparr>] \<and>
   join (slice (split ''DETECTION:abc123:done:0.9:low<high rejected'' '':'') 4) '':''
   = ''low<high rejected''"
  by (simp add: onmessage_sel eval_defs markup_example_html_def)

subsection \<open>C3: the identity announcement\<close>

lemma split_your_id:
  "split (''Your ID: '' @ rest) '': '' = ''Your ID'' # split_at '': '' rest"
  by (simp add: split_def startsWith_def)

lemma text_after_your_id: "text_after '': '' (''Your ID: '' @ rest) = rest"
  by (simp add: startsWith_def)

lemma index_your_id:
  assumes "startsWith data ''Your ID: ''"
  shows "index (split data '': '') 1 = Some (text_before '': '' (text_after '': '' data))"
proof -
  from assms obtain rest where d: "data = ''Your ID: '' @ rest"
    by (auto simp: startsWith_iff)
  have "split_at '': '' rest \<noteq> []" by (rule split_at_ne)
  then have "index (''Your ID'' # split_at '': '' rest) 1 = Some (hd (split_at '': '' rest))"
    by (cases "split_at '': '' rest") (simp_all add: index_def)
  then show ?thesis
    unfolding d split_your_id text_after_your_id by (simp add: hd_split_at)
qed

text \<open>
  What the script does for every line that begins with \<open>Your ID: \<close>: it stores element 1
  of the line split at \<open>: \<close>, that is the text behind the first \<open>: \<close> up to the next
  occurrence of \<open>: \<close>, and apart from two console entries it changes nothing else.
\<close>

lemma your_id_stores_second_piece:
  assumes "startsWith data ''Your ID: ''"
  shows "onmessage html rt data st =
           st\<lparr>myId := Some (text_before '': '' (text_after '': '' data)),
              console := console st @
                [(''WEBSOCKET'', ''Received: '' @ data),
                 (''CONNECTION'', ''WebSocket connected with ID: '' @
                                  text_before '': '' (text_after '': '' data))]\<rparr>"
  using assms index_your_id[OF assms] by (simp add: onmessage_def addLog_def Let_def)

text \<open>
  Where the announced identifier contains no \<open>: \<close> (the line splits into exactly two
  pieces) the stored text is all of it, as the specification says.
\<close>

lemma split_at_single: "sep \<noteq> [] \<Longrightarrow> split_at sep s = [p] \<Longrightarrow> p = s"
proof (induction s arbitrary: p)
  case Nil
  then show ?case by simp
next
  case (Cons c cs)
  show ?case
  proof (cases "startsWith (c # cs) sep")
    case True
    with Cons.prems split_at_ne[of sep "drop (length sep - 1) cs"] show ?thesis by simp
  next
    case False
    with Cons.prems split_at_ne[of sep cs]
    obtain q where "split_at sep cs = [q]" and "p = c # q"
      by (auto split: list.splits)
    with Cons.IH[OF Cons.prems(1)] show ?thesis by simp
  qed
qed

lemma your_id_without_separator:
  assumes "startsWith data ''Your ID: ''"
    and "length (split data '': '') = 2"
  shows "myId (onmessage html rt data st) = Some (text_after '': '' data)"
proof -
  from assms(1) obtain rest where d: "data = ''Your ID: '' @ rest"
    by (auto simp: startsWith_iff)
  from assms(2) obtain p where p: "split_at '': '' rest = [p]"
    unfolding d split_your_id by (cases "split_at '': '' rest") auto
  then have "p = rest" by (intro split_at_single[of "'': ''"]) simp_all
  with p have "index (split data '': '') 1 = Some rest"
    unfolding d split_your_id by (simp add: index_def)
  with assms(1) show ?thesis
    unfolding d text_after_your_id by (simp add: onmessage_def addLog_def Let_def)
qed

text \<open>
  Claim C3 says that for every line that begins with \<open>Your ID: \<close> the Session Identity
  becomes all the text behind the first \<open>: \<close>, even when that text contains \<open>: \<close> again.
  The script means to store the announced identifier, but \<open>data.split(': ')[1]\<close> cuts it
  at the next \<open>: \<close> (the DETECTION branch, by contrast, joins the tail of its split
  again). Evaluated on the line \<open>Your ID: a: b\<close>: the text behind the first \<open>: \<close> is
  \<open>a: b\<close>, and the stored identity is \<open>a\<close>.
\<close>

theorem your_id_cut_at_next_separator:
  "myId (onmessage text_only_html sample_engine ''Your ID: a: b'' fresh_page) = Some ''a'' \<and>
   text_after '': '' ''Your ID: a: b'' = ''a: b''"
  by (simp add: onmessage_sel eval_defs)

subsection \<open>C4: the message field keeps its colons\<close>

text \<open>
  Claim C4: for every string that splits at \<open>:\<close> into at least 5 fields, joining fields 4
  to the end with \<open>:\<close> gives exactly the text of the string behind its 4th colon.
\<close>

theorem detection_message_roundtrip:
  assumes "length (split s '':'') \<ge> 5"
  shows "join (slice (split s '':'') 4) '':'' = substring_after_nth CHR '':'' 4 s"
  using assms by (intro join_slice_split) simp

text \<open>Witness for C4 on the specification's example line.\<close>

theorem detection_message_roundtrip_witness:
  "length (split ''DETECTION:abc123:done:0.97:Looks valid:extra'' '':'') \<ge> 5 \<and>
   join (slice (split ''DETECTION:abc123:done:0.97:Looks valid:extra'' '':'') 4) '':''
     = substring_after_nth CHR '':'' 4 ''DETECTION:abc123:done:0.97:Looks valid:extra''"
proof -
  have h: "length (split ''DETECTION:abc123:done:0.97:Looks valid:extra'' '':'') \<ge> 5"
    by (simp add: split_def startsWith_def)
  from h detection_message_roundtrip[OF h] show ?thesis by (rule conjI)
qed

subsection \<open>C5: PAGE_COUNT and PAGE_RESULT lines\<close>

text \<open>
  Claim C5: for every line that begins with \<open>PAGE_COUNT:\<close> or \<open>PAGE_RESULT:\<close>, whatever
  its number of fields and whatever the engine makes of its numeric fields, the handler
  leaves the rendered result list unchanged; indeed it changes nothing but the console.
\<close>

theorem page_events_leave_list:
  assumes "startsWith data ''PAGE_COUNT:'' \<or> startsWith data ''PAGE_RESULT:''"
  shows "resultsList (onmessage html rt data st) = resultsList st \<and>
         (onmessage html rt data st)\<lparr>console := console st\<rparr> = st"
  using assms not_your_id[of data] page_not_detection[of data]
  by (auto simp add: onmessage_def addLog_def Let_def)

text \<open>Witness for C5, the specification's example line.\<close>

theorem page_events_leave_list_witness:
  "(startsWith ''PAGE_RESULT:abc123:1:portrait:0.77:600:800'' ''PAGE_COUNT:'' \<or>
    startsWith ''PAGE_RESULT:abc123:1:portrait:0.77:600:800'' ''PAGE_RESULT:'') \<and>
   resultsList
     (onmessage text_only_html sample_engine ''PAGE_RESULT:abc123:1:portrait:0.77:600:800'' fresh_page) = []"
proof -
  let ?d = "''PAGE_RESULT:abc123:1:portrait:0.77:600:800''"
  have h: "startsWith ?d ''PAGE_COUNT:'' \<or> startsWith ?d ''PAGE_RESULT:''"
    by (simp add: startsWith_def)
  from page_events_leave_list[OF h]
  have "resultsList (onmessage text_only_html sample_engine ?d fresh_page) = resultsList fresh_page"
    by (rule conjunct1)
  then have c: "resultsList (onmessage text_only_html sample_engine ?d fresh_page) = []"
    by (simp add: fresh_page_def)
  from h c show ?thesis by (rule conjI)
qed

subsection \<open>C6: a DETECTION line with too few fields\<close>

text \<open>
  Claim C6: for every line that begins with \<open>DETECTION:\<close> and splits at \<open>:\<close> into fewer
  than 5 fields, the handler only writes to the console (the received line and the
  processing notice): neither \<open>updateDetectionUI\<close> nor \<open>addDetectionResult\<close> runs, and the
  rendered result list, the Session Identity and the Active Upload Client Id are
  unchanged.
\<close>

theorem detection_short_dropped:
  assumes "startsWith data ''DETECTION:''"
    and "length (split data '':'') < 5"
  shows "onmessage html rt data st =
           st\<lparr>console := console st @
                [(''WEBSOCKET'', ''Received: '' @ data),
                 (''DETECTION'', ''Processing detection message'')]\<rparr>"
  using assms not_your_id[of data] by (simp add: onmessage_def addLog_def Let_def)

text \<open>Witness for C6: a DETECTION line with 3 fields.\<close>

theorem detection_short_dropped_witness:
  "startsWith ''DETECTION:abc123:done'' ''DETECTION:'' \<and>
   length (split ''DETECTION:abc123:done'' '':'') < 5 \<and>
   onmessage text_only_html sample_engine ''DETECTION:abc123:done'' fresh_page =
     fresh_page\<lparr>console :=
       [(''WEBSOCKET'', ''Received: DETECTION:abc123:done''),
        (''DETECTION'', ''Processing detection message'')]\<rparr>"
proof -
  let ?d = "''DETECTION:abc123:done''"
  have h1: "startsWith ?d ''DETECTION:''" by (simp add: startsWith_def)
  have h2: "length (split ?d '':'') < 5" by (simp add: split_def startsWith_def)
  from detection_short_dropped[OF h1 h2, where html = text_only_html and rt = sample_engine and st = fresh_page]
  have c: "onmessage text_only_html sample_engine ?d fresh_page =
     fresh_page\<lparr>console :=
       [(''WEBSOCKET'', ''Received: DETECTION:abc123:done''),
        (''DETECTION'', ''Processing detection message'')]\<rparr>"
    by (simp add: fresh_page_def)
  from h1 h2 c show ?thesis by (intro conjI)
qed

subsection \<open>C7: a confidence that does not parse\<close>

text \<open>
  Claim C7: for every DETECTION line with at least 5 fields whose field 3 the engine's
  \<open>parseFloat\<close> reads as \<open>NaN\<close>, the confidence is \<open>NaN\<close> and the event is dispatched all the
  same: \<open>updateDetectionUI\<close> and \<open>addDetectionResult\<close> run with that confidence, the final
  state is the one any other engine (one that parses the field, say) would produce, and
  for a matching clientId the message is appended to the list.
\<close>

theorem detection_nan_confidence_dispatches:
  fixes rt :: "'d runtime"
  assumes "startsWith data ''DETECTION:''"
    and "length (split data '':'') \<ge> 5"
    and "parseFloat rt (split data '':'' ! 3) = NaN"
  shows "onmessage html rt data st =
           addDetectionResult html (split data '':'' ! 1) (split data '':'' ! 2) (NaN :: 'd number)
             (join (slice (split data '':'') 4) '':'')
             (updateDetectionUI (split data '':'' ! 1) (split data '':'' ! 2) (NaN :: 'd number)
                (join (slice (split data '':'') 4) '':'')
                (addLog ''DETECTION''
                   (''Client: '' @ split data '':'' ! 1 @ '', Status: '' @ split data '':'' ! 2 @
                    '', Message: '' @ join (slice (split data '':'') 4) '':'')
                   (addLog ''DETECTION'' ''Processing detection message''
                      (addLog ''WEBSOCKET'' (''Received: '' @ data) st)))) \<and>
         onmessage html rt' data st = onmessage html rt data st \<and>
         (currentClientId st = Some (split data '':'' ! 1) \<longrightarrow>
            resultsList (onmessage html rt data st) =
              resultsList st @
              [\<lparr>className = ''result-item'',
                childNodes = html (join (slice (split data '':'') 4) '':'')\<rparr>])"
proof (intro conjI impI)
  from assms(1) have ny: "\<not> startsWith data ''Your ID: ''"
    by (simp add: not_your_id)
  have unf: "onmessage html e data st =
           addDetectionResult html (split data '':'' ! 1) (split data '':'' ! 2)
             (parseFloat e (split data '':'' ! 3))
             (join (slice (split data '':'') 4) '':'')
             (updateDetectionUI (split data '':'' ! 1) (split data '':'' ! 2)
                (parseFloat e (split data '':'' ! 3))
                (join (slice (split data '':'') 4) '':'')
                (addLog ''DETECTION''
                   (''Client: '' @ split data '':'' ! 1 @ '', Status: '' @ split data '':'' ! 2 @
                    '', Message: '' @ join (slice (split data '':'') 4) '':'')
                   (addLog ''DETECTION'' ''Processing detection message''
                      (addLog ''WEBSOCKET'' (''Received: '' @ data) st))))" for e :: "'e runtime"
    using assms(1,2) ny by (simp add: onmessage_def Let_def)
  show "onmessage html rt data st =
           addDetectionResult html (split data '':'' ! 1) (split data '':'' ! 2) (NaN :: 'd number)
             (join (slice (split data '':'') 4) '':'')
             (updateDetectionUI (split data '':'' ! 1) (split data '':'' ! 2) (NaN :: 'd number)
                (join (slice (split data '':'') 4) '':'')
                (addLog ''DETECTION''
                   (''Client: '' @ split data '':'' ! 1 @ '', Status: '' @ split data '':'' ! 2 @
                    '', Message: '' @ join (slice (split data '':'') 4) '':'')
                   (addLog ''DETECTION'' ''Processing detection message''
                      (addLog ''WEBSOCKET'' (''Received: '' @ data) st))))"
    using unf[of rt] assms(3) by simp
  show "onmessage html rt' data st = onmessage html rt data st"
    unfolding unf by (simp add: updateDetectionUI_def addDetectionResult_def)
  show "resultsList (onmessage html rt data st) =
              resultsList st @
              [\<lparr>className = ''result-item'',
                childNodes = html (join (slice (split data '':'') 4) '':'')\<rparr>]"
    unfolding unf by (simp add: addDetectionResult_sel updateDetectionUI_sel addLog_sel)
qed

text \<open>
  Witness for C7: the confidence text \<open>n/a\<close>, which the sample engine reads as \<open>NaN\<close>,
  against an engine that reads every text as a number.
\<close>

theorem detection_nan_confidence_dispatches_witness:
  "startsWith ''DETECTION:abc123:done:n/a:Looks valid'' ''DETECTION:'' \<and>
   length (split ''DETECTION:abc123:done:n/a:Looks valid'' '':'') \<ge> 5 \<and>
   parseFloat sample_engine (split ''DETECTION:abc123:done:n/a:Looks valid'' '':'' ! 3) = NaN \<and>
   onmessage text_only_html (sample_engine\<lparr>parseFloat := \<lambda>s. Num ''0.5''\<rparr>)
     ''DETECTION:abc123:done:n/a:Looks valid''
     (fresh_page\<lparr>currentClientId := Some ''abc123''\<rparr>)
   = onmessage text_only_html sample_engine
     ''DETECTION:abc123:done:n/a:Looks valid''
     (fresh_page\<lparr>currentClientId := Some ''abc123''\<rparr>) \<and>
   resultsList (onmessage text_only_html sample_engine ''DETECTION:abc123:done:n/a:Looks valid''
                  (fresh_page\<lparr>currentClientId := Some ''abc123''\<rparr>))
   = [\<lparr>className = ''result-item'', childNodes = [Text ''Looks valid'']\<rparr>]"
proof -
  let ?d = "''DETECTION:abc123:done:n/a:Looks valid''"
  let ?st = "fresh_page\<lparr>currentClientId := Some ''abc123''\<rparr>"
  let ?rt' = "sample_engine\<lparr>parseFloat := \<lambda>s. Num ''0.5''\<rparr>"
  have h1: "startsWith ?d ''DETECTION:''" by (simp add: startsWith_def)
  have h2: "length (split ?d '':'') \<ge> 5" by (simp add: split_def startsWith_def)
  have h3: "parseFloat sample_engine (split ?d '':'' ! 3) = NaN"
    by (simp add: eval_defs)
  have m: "currentClientId ?st = Some (split ?d '':'' ! 1)"
    by (simp add: split_def startsWith_def)
  note t = detection_nan_confidence_dispatches[OF h1 h2 h3, where html = text_only_html and st = ?st and rt' = ?rt']
  from t have c1: "onmessage text_only_html ?rt' ?d ?st = onmessage text_only_html sample_engine ?d ?st"
    by (elim conjE)
  from t m have "resultsList (onmessage text_only_html sample_engine ?d ?st) =
      resultsList ?st @
      [\<lparr>className = ''result-item'', childNodes = text_only_html (join (slice (split ?d '':'') 4) '':'')\<rparr>]"
    by (elim conjE) (erule mp)
  then have c2: "resultsList (onmessage text_only_html sample_engine ?d ?st) =
      [\<lparr>className = ''result-item'', childNodes = [Text ''Looks valid'']\<rparr>]"
    by (simp add: eval_defs)
  from h1 h2 h3 c1 c2 show ?thesis by (intro conjI)
qed

subsection \<open>C8: when the Active Upload Client Id is set\<close>

text \<open>
  Claim C8 as stated (the Active Upload Client Id is set to the new identifier each time
  an upload begins, also for attempts that fail afterwards) fails: the handler assigns
  \<open>currentClientId\<close> only behind the checks of the response. After the click, and after a
  response with a failure status, the previous identifier is still in place.
\<close>

theorem upload_begin_sets_client_id_counterexample:
  "currentClientId
     (run text_only_html sample_engine (fresh_page\<lparr>currentClientId := Some ''client_previous''\<rparr>)
        [Click (Some sample_file) ''0.4fzyo82mvyr''])
     \<noteq> Some (generateClientId ''0.4fzyo82mvyr'') \<and>
   currentClientId
     (run text_only_html sample_engine (fresh_page\<lparr>currentClientId := Some ''client_previous''\<rparr>)
        [Click (Some sample_file) ''0.4fzyo82mvyr'', FetchSettled response_500])
     \<noteq> Some (generateClientId ''0.4fzyo82mvyr'')"
  by (simp add: run_def fresh_page_def response_500_def onclick_def onclick_fetched_def
        onclick_catch_def Let_def addLog_sel alert_sel generateClientId_def substr_def)

text \<open>
  Claim C8, amended: the Active Upload Client Id is set to the newly generated identifier
  when, and only when, the upload succeeds, that is when the request settles with a
  response that is \<open>ok\<close> and its body parses to a value other than \<open>null\<close> without a truthy
  \<open>error\<close>; it then supersedes the previous one. While the upload is pending, and after an
  attempt that fails with a transport error, a failure status, an unreadable body, the
  body \<open>null\<close> or a server-reported error, it keeps its previous value. This holds
  whatever messages arrive during the attempt.
\<close>

theorem upload_sets_client_id_on_success:
  assumes "\<not> disabled (uploadBtn st)"
  shows "currentClientId (run html rt st (Click (Some f) r # map Message ms)) = currentClientId st \<and>
         currentClientId
           (run html rt st (Click (Some f) r # map Message ms @ FetchSettled x #
                       map Message ms' @ [JsonSettled y]))
         = (if response_ok x \<and> body_accepted y then Some (generateClientId r)
            else currentClientId st)"
proof (intro conjI)
  show "currentClientId (run html rt st (Click (Some f) r # map Message ms)) = currentClientId st"
    using assms by (simp add: run_Cons messages_frame onclick_frame)
next
  let ?s1 = "run html rt (onclick rt (Some f) r st) (map Message ms)"
  let ?s2 = "run html rt (onclick_fetched rt (generateClientId r) x ?s1) (map Message ms')"
  have cc: "currentClientId ?s2 = currentClientId st"
    by (simp add: messages_frame onclick_fetched_frame onclick_frame)
  have su: "suspended ?s2 =
              (if response_ok x then Some (AwaitJson (generateClientId r)) else None)"
    by (simp add: messages_frame onclick_fetched_frame)
  show "currentClientId
           (run html rt st (Click (Some f) r # map Message ms @ FetchSettled x #
                       map Message ms' @ [JsonSettled y]))
         = (if response_ok x \<and> body_accepted y then Some (generateClientId r)
            else currentClientId st)"
    unfolding attempt_unfold[OF assms]
    using cc su
    by (cases "body_accepted y") (simp_all add: onclick_parsed_accepted onclick_parsed_rejected)
qed

text \<open>Witness for C8: a successful upload from a fresh page.\<close>

theorem upload_sets_client_id_on_success_witness:
  "\<not> disabled (uploadBtn fresh_page) \<and>
   currentClientId
     (run text_only_html sample_engine fresh_page
        (Click (Some sample_file) ''0.4fzyo82mvyr'' #
         map Message [] @ FetchSettled response_200 #
         map Message [''PAGE_COUNT:client_4fzyo82m:2''] @
         [JsonSettled (Inr (JObject None None))]))
   = Some ''client_4fzyo82m''"
proof -
  have h: "\<not> disabled (uploadBtn fresh_page)" by (simp add: fresh_page_def)
  from upload_sets_client_id_on_success[OF h,
      where html = text_only_html and rt = sample_engine and f = sample_file and r = "''0.4fzyo82mvyr''" and ms = "[]"
        and x = response_200 and ms' = "[''PAGE_COUNT:client_4fzyo82m:2'']"
        and y = "Inr (JObject None None)"]
  have c: "currentClientId
     (run text_only_html sample_engine fresh_page
        (Click (Some sample_file) ''0.4fzyo82mvyr'' #
         map Message [] @ FetchSettled response_200 #
         map Message [''PAGE_COUNT:client_4fzyo82m:2''] @
         [JsonSettled (Inr (JObject None None))]))
   = Some ''client_4fzyo82m''"
    by (simp add: response_ok_def response_200_def body_accepted_def truthy_def
          generateClientId_def substr_def)
  from h c show ?thesis by (rule conjI)
qed

subsection \<open>C9: the form of a generated identifier\<close>

text \<open>
  Where the base-36 text of the random number has at least 8 digits behind the point, the
  identifier has the form the specification gives: \<open>client_\<close> and 8 base-36 characters.
\<close>

lemma client_id_with_eight_digits:
  assumes "length r \<ge> 10"
    and "list_all is_base36 (drop 2 r)"
  shows "take 7 (generateClientId r) = ''client_'' \<and>
         length (generateClientId r) = 15 \<and>
         list_all is_base36 (drop 7 (generateClientId r))"
  using assms
  by (auto simp: generateClientId_def substr_def list_all_iff dest: in_set_takeD)

text \<open>
  Claim C9 says that every generated identifier is \<open>client_\<close> followed by exactly 8
  base-36 characters (length 15), for every value of the random source. The script asks
  for 8 characters with \<open>substr(2, 8)\<close>, but the base-36 text of a random number can have
  fewer digits, and then the identifier is shorter. Evaluated for the random number one
  half, whose base-36 text is \<open>0.i\<close>: the identifier is \<open>client_i\<close>, of length 8.
\<close>

theorem client_id_short_for_one_half:
  "generateClientId ''0.i'' = ''client_i'' \<and> length (generateClientId ''0.i'') = 8"
  by (simp add: generateClientId_def substr_def)

subsection \<open>C10: when the result list is cleared\<close>

text \<open>
  Claim C10 as stated (on success the list is cleared before any event of the new upload
  is dispatched) fails: the list is cleared when the parsed body of the response is
  handled, and messages that arrive while the request is pending are dispatched before
  that. Here a DETECTION line for the new identifier arrives while the request is
  pending: it is rendered behind the earlier entry, and the clearing then removes both.
\<close>

theorem upload_clears_before_events_counterexample:
  "resultsList
     (run text_only_html sample_engine
        (fresh_page\<lparr>resultsList := [\<lparr>className = ''result-item'', childNodes = [Text ''earlier'']\<rparr>]\<rparr>)
        [Click (Some sample_file) ''0.4fzyo82mvyr'',
         Message ''DETECTION:client_4fzyo82m:done:0.9:Looks valid''])
     = [\<lparr>className = ''result-item'', childNodes = [Text ''earlier'']\<rparr>,
        \<lparr>className = ''result-item'', childNodes = [Text ''Looks valid'']\<rparr>] \<and>
   resultsList
     (run text_only_html sample_engine
        (fresh_page\<lparr>resultsList := [\<lparr>className = ''result-item'', childNodes = [Text ''earlier'']\<rparr>]\<rparr>)
        [Click (Some sample_file) ''0.4fzyo82mvyr'',
         Message ''DETECTION:client_4fzyo82m:done:0.9:Looks valid'',
         FetchSettled response_200,
         JsonSettled (Inr (JObject None None))])
     = []"
  by (simp add: run_def fresh_page_def response_200_def onclick_def onclick_fetched_def
        onclick_parsed_def onclick_catch_def truthy_def Let_def addLog_sel alert_sel
        onmessage_frame onmessage_def updateDetectionUI_sel addDetectionResult_sel
        split_def startsWith_def slice_def text_only_html_def)

text \<open>
  Claim C10, amended: on every successful upload (the request settles with a response
  that is \<open>ok\<close> and its body parses to a value other than \<open>null\<close> without a truthy
  \<open>error\<close>) the rendered result list is cleared at the moment the parsed body is
  handled, which removes every entry rendered until then, those for messages that arrived
  during the upload included; after a failed upload (the body \<open>null\<close> included) the list
  is what the messages that arrived in the meantime made of it, as if there had been no
  upload.
\<close>

theorem upload_clears_list_on_success:
  assumes "\<not> disabled (uploadBtn st)"
  shows "resultsList
           (run html rt st (Click (Some f) r # map Message ms @ FetchSettled x #
                       map Message ms' @ [JsonSettled y]))
         = (if response_ok x \<and> body_accepted y then []
            else resultsList (run html rt st (map Message (ms @ ms'))))"
proof -
  let ?s1 = "run html rt (onclick rt (Some f) r st) (map Message ms)"
  let ?s2 = "run html rt (onclick_fetched rt (generateClientId r) x ?s1) (map Message ms')"
  have l1: "resultsList ?s1 = resultsList (run html rt st (map Message ms))"
    by (rule messages_list_cong) (simp add: onclick_frame)
  have l2: "resultsList ?s2 = resultsList (run html rt st (map Message (ms @ ms')))"
    unfolding map_append run_append
    by (rule messages_list_cong) (simp add: onclick_fetched_frame l1)
  have su: "suspended ?s2 =
              (if response_ok x then Some (AwaitJson (generateClientId r)) else None)"
    by (simp add: messages_frame onclick_fetched_frame)
  show ?thesis
    unfolding attempt_unfold[OF assms]
    using l2 su
    by (cases "body_accepted y") (simp_all add: onclick_parsed_accepted onclick_parsed_rejected)
qed

text \<open>
  Witness for C10: a line rendered while the request is pending is gone after the
  successful upload.
\<close>

theorem upload_clears_list_on_success_witness:
  "\<not> disabled (uploadBtn fresh_page) \<and>
   resultsList
     (run text_only_html sample_engine fresh_page
        (Click (Some sample_file) ''0.4fzyo82mvyr'' #
         map Message [''stale line''] @ FetchSettled response_200 #
         map Message [] @
         [JsonSettled (Inr (JObject None None))]))
   = []"
proof -
  have h: "\<not> disabled (uploadBtn fresh_page)" by (simp add: fresh_page_def)
  from upload_clears_list_on_success[OF h,
      where html = text_only_html and rt = sample_engine and f = sample_file and r = "''0.4fzyo82mvyr''"
        and ms = "[''stale line'']" and x = response_200 and ms' = "[]"
        and y = "Inr (JObject None None)"]
  have c: "resultsList
     (run text_only_html sample_engine fresh_page
        (Click (Some sample_file) ''0.4fzyo82mvyr'' #
         map Message [''stale line''] @ FetchSettled response_200 #
         map Message [] @
         [JsonSettled (Inr (JObject None None))]))
   = []"
    by (simp add: response_ok_def response_200_def body_accepted_def truthy_def)
  from h c show ?thesis by (rule conjI)
qed

end
